theory Spec2Isabelle
  imports Main "HOL-Library.Multiset"
begin

section \<open>Time model\<close>

text \<open>
  A \<open>datetime\<close> is a count of microseconds on one clock (the resolution of Python's
  \<open>datetime\<close>); a \<open>timedelta\<close> is a signed count of microseconds.  An interval is the
  pair \<open>(start, end)\<close> the source keeps in its lists.  The range of Python's \<open>datetime\<close>
  (years 1 to 9999) is not modelled for these readings: no sum of them raises
  \<open>OverflowError\<close>.  Python's aware datetimes, with their zone, fold and range, are the
  subject of the section on aware datetimes.
\<close>

type_synonym datetime = int
type_synonym timedelta = int
type_synonym interval = "datetime \<times> datetime"

definition SECOND :: timedelta where "SECOND = 1000000"
definition MINUTE :: timedelta where "MINUTE = 60 * SECOND"
definition HOUR :: timedelta where "HOUR = 60 * MINUTE"
definition DAY :: timedelta where "DAY = 24 * HOUR"

text \<open>The exceptions the modelled code raises.\<close>

datatype error =
    ValueError
  | KeyError
  | AttributeError
  | TypeError
  | OverflowError
  | RecursionError
  | JSONDecodeError
  | HTTPException nat

section \<open>Interval subtraction (\<open>mock_tools.suggest_times\<close>, "Subtract busy from free")\<close>

text \<open>
  The inner loop over \<open>segments\<close> for one busy block \<open>(bs, be)\<close>: a disjoint segment is
  kept, an overlapping one leaves its left remainder if \<open>xs < bs\<close> and its right remainder
  if \<open>be < xe\<close>.
\<close>

fun subtract_one :: "interval \<Rightarrow> interval list \<Rightarrow> interval list" where
  "subtract_one (bs, be) [] = []"
| "subtract_one (bs, be) ((xs, xe) # segments) =
     (if xe \<le> bs \<or> be \<le> xs then [(xs, xe)]
      else (if xs < bs then [(xs, bs)] else []) @ (if be < xe then [(be, xe)] else []))
     @ subtract_one (bs, be) segments"

text \<open>The outer loop \<open>for (bs, be) in busy\<close>, in list order.\<close>

fun subtract_busy :: "interval list \<Rightarrow> interval list \<Rightarrow> interval list" where
  "subtract_busy segments [] = segments"
| "subtract_busy segments (b # busy) = subtract_busy (subtract_one b segments) busy"


text \<open>The instants of a half-open interval, and of a list of segments.\<close>

definition span :: "interval \<Rightarrow> datetime set" where
  "span x = {fst x ..< snd x}"

definition covered :: "interval list \<Rightarrow> datetime set" where
  "covered segments = (\<Union>x \<in> set segments. span x)"

lemma covered_Nil [simp]: "covered [] = {}"
  by (simp add: covered_def)

lemma covered_Cons [simp]: "covered (x # xs) = span x \<union> covered xs"
  by (simp add: covered_def)

lemma covered_append [simp]: "covered (xs @ ys) = covered xs \<union> covered ys"
  by (auto simp: covered_def)

lemma covered_subtract_one: "covered (subtract_one b segments) = covered segments - span b"
proof (induction segments)
  case Nil
  show ?case by (cases b) simp
next
  case (Cons x segments)
  obtain bs be where b: "b = (bs, be)" by (cases b)
  obtain xs xe where x: "x = (xs, xe)" by (cases x)
  have "covered (subtract_one b [x]) = span x - span b"
    unfolding b x by (auto simp: span_def)
  moreover have "subtract_one b (x # segments) = subtract_one b [x] @ subtract_one b segments"
    unfolding b x by simp
  ultimately show ?case using Cons.IH by auto
qed

lemma covered_subtract_busy:
  "covered (subtract_busy segments busy) = covered segments - covered busy"
  by (induction busy arbitrary: segments) (auto simp: covered_subtract_one)











subsection \<open>Claims about the subtraction loop\<close>





text \<open>
  The hypothesis of the second part is needed: the source does not filter out a busy block
  whose end precedes its start, and with such a block the segments themselves depend on the
  order, while the free instants do not.
\<close>

lemma subtract_busy_segments_depend_on_order:
  "subtract_busy [(0, 10)] [(7, 3), (4, 6)] = [(0, 4), (6, 7), (3, 4), (6, 10)]
   \<and> subtract_busy [(0, 10)] [(4, 6), (7, 3)] = [(0, 4), (6, 10)]
   \<and> covered (subtract_busy [(0, 10)] [(7, 3), (4, 6)]) = covered (subtract_busy [(0, 10)] [(4, 6), (7, 3)])"
proof -
  have l: "subtract_busy [(0, 10)] [(7, 3), (4, 6)] = [(0, 4), (6, 7), (3, 4), (6, 10)]"
    by simp
  have r: "subtract_busy [(0, 10)] [(4, 6), (7, 3)] = [(0, 4), (6, 10)]"
    by simp
  have "covered (subtract_busy [(0, 10)] [(7, 3), (4, 6)]) = covered (subtract_busy [(0, 10)] [(4, 6), (7, 3)])"
    by (simp only: covered_subtract_busy) (simp add: covered_def Un_commute)
  with l r show ?thesis by (intro conjI)
qed

section \<open>The loops of \<open>mock_tools.suggest_times\<close> on one timeline\<close>

text \<open>
  The loops of \<open>suggest_times\<close> with every timestamp replaced by its reading on one
  clock, so that Python's comparisons and differences are those of integers.  This is not
  yet the engine: the code works on aware datetimes, whose comparisons read two clocks
  when the zone has transitions.  The engine itself is embedded in a later section, which
  proves that its run is a run of these loops when the organizer's zone keeps one UTC
  offset; the functions here carry the suffix \<open>_line\<close>.
\<close>

text \<open>
  The window with the busy blocks is the mapping \<open>get_availability\<close> returns; the window
  with the candidates is the result of the loops.
\<close>

record window =
  window_start :: datetime
  window_end :: datetime

record availability = window +
  busy :: "interval list"


text \<open>\<open>iso\<close> on a reading: \<open>dt.replace(microsecond=0)\<close> truncates to whole seconds.\<close>

definition iso_line :: "datetime \<Rightarrow> datetime" where
  "iso_line dt = dt - dt mod SECOND"





text \<open>
  The \<open>while day_cursor < wend\<close> loop.  The cursor advances by one day and is put back
  on the work-hour start, so it grows strictly and the loop ends.
\<close>

lemma DAY_pos: "0 < DAY"
  by (simp add: DAY_def HOUR_def MINUTE_def SECOND_def)









subsection \<open>Properties of the loops\<close>



lemma iso_line_div: "iso_line a = a div SECOND * SECOND"
  by (simp add: iso_line_def minus_mod_eq_div_mult)


lemma iso_line_whole: "iso_line a mod SECOND = 0"
  by (simp add: iso_line_div)

lemma iso_line_id: "a mod SECOND = 0 \<Longrightarrow> iso_line a = a"
  by (simp add: iso_line_def)

lemma iso_line_iso: "iso_line (iso_line a) = iso_line a"
  by (simp add: iso_line_id iso_line_whole)


text \<open>
  Two lists to state what the loops compute: the slots of all refined blocks that pass the
  check \<open>end_dt <= block end\<close>, in order, which the proposal loop would collect
  without its \<open>break\<close>; and the free segments of all blocks, in order, before the length
  filter.
\<close>

definition valid_slots_line :: "timedelta \<Rightarrow> interval list \<Rightarrow> interval list" where
  "valid_slots_line duration refined =
     map (\<lambda>(s, e). (iso_line s, iso_line (s + duration))) (filter (\<lambda>(s, e). s + duration \<le> e) refined)"


lemma valid_slots_line_Nil [simp]: "valid_slots_line d [] = []"
  by (simp add: valid_slots_line_def)




text \<open>A list of segments in chronological order: each has \<open>start \<le> end\<close> and ends no
  later than every later one starts.\<close>

definition chain :: "interval list \<Rightarrow> bool" where
  "chain segments = (sorted_wrt (\<lambda>x y. snd x \<le> fst y) segments \<and> (\<forall>x \<in> set segments. fst x \<le> snd x))"










lemma chain_Nil [simp]: "chain []"
  by (simp add: chain_def)





















subsection \<open>What the loops guarantee on one timeline\<close>


section \<open>Availability resolver (\<open>google_tools.get_availability\<close>)\<close>

text \<open>
  \<open>ws\<close> and \<open>we\<close> are the local clock readings of the parsed boundaries and \<open>utcoffset\<close> is
  the UTC offset of \<open>we\<close>'s zone at a local reading (\<open>tzinfo.utcoffset\<close>).  \<open>now_utc\<close> carries
  another \<open>tzinfo\<close>, so \<open>we <= now_utc\<close> compares instants, \<open>we - utcoffset we\<close> against
  \<open>now_utc\<close>, while \<open>+= timedelta(days=7)\<close> moves the local reading.  Python raises
  \<open>ValueError\<close> for an offset that is not strictly between minus and plus 24 hours.
\<close>

function roll_window ::
  "(datetime \<Rightarrow> timedelta) \<Rightarrow> datetime \<Rightarrow> datetime \<Rightarrow> datetime \<Rightarrow> error + interval" where
  "roll_window utcoffset now_utc ws we =
     (if \<not> (- DAY < utcoffset we \<and> utcoffset we < DAY) then Inl ValueError
      else if we - utcoffset we \<le> now_utc
        then roll_window utcoffset now_utc (ws + 7 * DAY) (we + 7 * DAY)
      else Inr (ws, we))"
  by pat_completeness auto
termination
proof (relation "measure (\<lambda>(utcoffset, now_utc, ws, we). nat (now_utc + DAY - we))")
  show "wf (measure (\<lambda>(utcoffset, now_utc, ws, we). nat (now_utc + DAY - we)))" by simp
next
  fix utcoffset :: "datetime \<Rightarrow> timedelta" and now_utc ws we :: int
  assume "\<not> \<not> (- DAY < utcoffset we \<and> utcoffset we < DAY)" "we - utcoffset we \<le> now_utc"
  then show "((utcoffset, now_utc, ws + 7 * DAY, we + 7 * DAY), (utcoffset, now_utc, ws, we))
     \<in> measure (\<lambda>(utcoffset, now_utc, ws, we). nat (now_utc + DAY - we))"
    using DAY_pos by simp
qed

declare roll_window.simps [simp del]

text \<open>
  \<open>freebusy\<close> is the calendar backend's query, which may fail; the participants and the
  duration are passed through unchanged and left out.
\<close>

definition get_availability ::
  "(string \<Rightarrow> datetime \<Rightarrow> datetime \<Rightarrow> error + interval list) \<Rightarrow> (datetime \<Rightarrow> timedelta) \<Rightarrow>
     datetime \<Rightarrow> string \<Rightarrow> datetime \<Rightarrow> datetime \<Rightarrow> error + availability" where
  "get_availability freebusy utcoffset now_utc user_id ws we =
     (case roll_window utcoffset now_utc ws we of
        Inl e \<Rightarrow> Inl e
      | Inr (ws', we') \<Rightarrow>
          (case freebusy user_id ws' we' of
             Inl e \<Rightarrow> Inl e
           | Inr blocks \<Rightarrow> Inr \<lparr>window_start = ws', window_end = we', busy = blocks\<rparr>))"

lemma roll_window_result:
  "roll_window utcoffset now_utc ws we = Inr (ws', we') \<Longrightarrow>
     now_utc < we' - utcoffset we'
     \<and> (\<exists>k::nat. ws' = ws + int k * (7 * DAY) \<and> we' = we + int k * (7 * DAY)
           \<and> (\<forall>j<k. we + int j * (7 * DAY) - utcoffset (we + int j * (7 * DAY)) \<le> now_utc))"
proof (induction utcoffset now_utc ws we rule: roll_window.induct)
  case (1 utcoffset now_utc ws we)
  show ?case
  proof (cases "we - utcoffset we \<le> now_utc")
    case False
    with "1.prems" have "ws' = ws" "we' = we"
      by (auto simp: roll_window.simps [of utcoffset now_utc ws we] split: if_splits)
    with False show ?thesis by (intro conjI exI [of _ 0]) auto
  next
    case True
    with "1.prems" have ok: "\<not> \<not> (- DAY < utcoffset we \<and> utcoffset we < DAY)"
      and rec: "roll_window utcoffset now_utc (ws + 7 * DAY) (we + 7 * DAY) = Inr (ws', we')"
      by (auto simp: roll_window.simps [of utcoffset now_utc ws we] split: if_splits)
    from "1.IH" [OF ok True rec] obtain k :: nat where
      k: "now_utc < we' - utcoffset we'" "ws' = ws + 7 * DAY + int k * (7 * DAY)"
         "we' = we + 7 * DAY + int k * (7 * DAY)"
         "\<forall>j<k. we + 7 * DAY + int j * (7 * DAY) - utcoffset (we + 7 * DAY + int j * (7 * DAY)) \<le> now_utc"
      by blast
    have "\<forall>j<Suc k. we + int j * (7 * DAY) - utcoffset (we + int j * (7 * DAY)) \<le> now_utc"
    proof (intro allI impI)
      fix j assume j: "j < Suc k"
      show "we + int j * (7 * DAY) - utcoffset (we + int j * (7 * DAY)) \<le> now_utc"
      proof (cases j)
        case 0
        with True show ?thesis by simp
      next
        case (Suc i)
        with j have "i < k" by simp
        with k(4) have "we + 7 * DAY + int i * (7 * DAY) - utcoffset (we + 7 * DAY + int i * (7 * DAY)) \<le> now_utc"
          by blast
        moreover have "we + 7 * DAY + int i * (7 * DAY) = we + int j * (7 * DAY)"
          using Suc by (simp add: algebra_simps)
        ultimately show ?thesis by simp
      qed
    qed
    moreover have "ws' = ws + int (Suc k) * (7 * DAY)" "we' = we + int (Suc k) * (7 * DAY)"
      using k(2,3) by (simp_all add: algebra_simps)
    ultimately show ?thesis using k(1) by (intro conjI exI [of _ "Suc k"])
  qed
qed

lemma roll_window_total:
  assumes "\<forall>t. - DAY < utcoffset t \<and> utcoffset t < DAY"
  shows "\<exists>w. roll_window utcoffset now_utc ws we = Inr w"
  using assms
proof (induction utcoffset now_utc ws we rule: roll_window.induct)
  case (1 utcoffset now_utc ws we)
  from "1.prems" have ok: "\<not> \<not> (- DAY < utcoffset we \<and> utcoffset we < DAY)" by simp
  show ?case
  proof (cases "we - utcoffset we \<le> now_utc")
    case True
    from "1.IH" [OF ok True "1.prems"] obtain w
      where "roll_window utcoffset now_utc (ws + 7 * DAY) (we + 7 * DAY) = Inr w" by blast
    with ok True show ?thesis
      by (simp add: roll_window.simps [of utcoffset now_utc ws we])
  next
    case False
    with ok show ?thesis
      by (simp add: roll_window.simps [of utcoffset now_utc ws we])
  qed
qed

text \<open>
  C2.  Whenever \<open>get_availability\<close> succeeds, the end of the returned window is an instant
  strictly after now, and the returned boundaries are the supplied ones advanced by the
  same whole number \<open>k\<close> of 7-day steps, so that length, weekday and time of day are kept;
  \<open>k\<close> is the least number of steps that brings the end after now: every smaller number
  leaves it at or before now, and a window whose end is already after now is returned
  unchanged.
\<close>

theorem get_availability_future_window:
  assumes "get_availability freebusy utcoffset now_utc user_id ws we = Inr r"
  shows "now_utc < window_end r - utcoffset (window_end r)
       \<and> (\<exists>k::nat. window_start r = ws + int k * (7 * DAY) \<and> window_end r = we + int k * (7 * DAY)
             \<and> (\<forall>j<k. we + int j * (7 * DAY) - utcoffset (we + int j * (7 * DAY)) \<le> now_utc)
             \<and> (now_utc < we - utcoffset we \<longrightarrow> k = 0))"
proof -
  from assms obtain ws' we' blocks where rw: "roll_window utcoffset now_utc ws we = Inr (ws', we')"
    and r: "r = \<lparr>window_start = ws', window_end = we', busy = blocks\<rparr>"
    by (auto simp: get_availability_def split: sum.splits)
  from roll_window_result [OF rw] obtain k :: nat where now: "now_utc < we' - utcoffset we'"
    and k: "ws' = ws + int k * (7 * DAY)" "we' = we + int k * (7 * DAY)"
      "\<forall>j<k. we + int j * (7 * DAY) - utcoffset (we + int j * (7 * DAY)) \<le> now_utc"
    by blast
  have "now_utc < we - utcoffset we \<longrightarrow> k = 0"
  proof (intro impI, rule ccontr)
    assume future: "now_utc < we - utcoffset we" and "k \<noteq> 0"
    then have "0 < k" by simp
    with k(3) have "we + int 0 * (7 * DAY) - utcoffset (we + int 0 * (7 * DAY)) \<le> now_utc"
      by blast
    with future show False by simp
  qed
  with k have "\<exists>k::nat. window_start r = ws + int k * (7 * DAY) \<and> window_end r = we + int k * (7 * DAY)
             \<and> (\<forall>j<k. we + int j * (7 * DAY) - utcoffset (we + int j * (7 * DAY)) \<le> now_utc)
             \<and> (now_utc < we - utcoffset we \<longrightarrow> k = 0)"
    unfolding r by (intro exI [of _ k]) simp
  moreover have "now_utc < window_end r - utcoffset (window_end r)" using now by (simp add: r)
  ultimately show ?thesis by (intro conjI)
qed

theorem get_availability_future_window_witness:
  "get_availability (\<lambda>user_id time_min time_max. Inr []) (\<lambda>t. - (4 * HOUR)) (10 * DAY) ''demo''
       (DAY + 9 * HOUR) (DAY + 17 * HOUR)
     = Inr \<lparr>window_start = 15 * DAY + 9 * HOUR, window_end = 15 * DAY + 17 * HOUR, busy = []\<rparr>
   \<and> 10 * DAY < 15 * DAY + 17 * HOUR - (- (4 * HOUR))
   \<and> 15 * DAY + 17 * HOUR = DAY + 17 * HOUR + int 2 * (7 * DAY)
   \<and> 8 * DAY + 17 * HOUR - (- (4 * HOUR)) \<le> 10 * DAY"
proof -
  have run: "get_availability (\<lambda>user_id time_min time_max. Inr []) (\<lambda>t. - (4 * HOUR)) (10 * DAY) ''demo''
       (DAY + 9 * HOUR) (DAY + 17 * HOUR)
     = Inr \<lparr>window_start = 15 * DAY + 9 * HOUR, window_end = 15 * DAY + 17 * HOUR, busy = []\<rparr>"
    by (simp add: get_availability_def roll_window.simps DAY_def HOUR_def MINUTE_def SECOND_def)
  from get_availability_future_window [OF run]
  have "10 * DAY < 15 * DAY + 17 * HOUR - (- (4 * HOUR))" by simp
  with run show ?thesis by (simp add: DAY_def HOUR_def MINUTE_def SECOND_def)
qed


section \<open>Aware datetimes\<close>

text \<open>
  The datetimes of \<open>suggest_times\<close> and \<open>create_event\<close> are aware: a local clock reading
  (\<open>wall\<close>, microseconds since 0001-01-01T00:00 on that clock), a \<open>tzinfo\<close> and the \<open>fold\<close>
  bit of PEP 495.  Two kinds of \<open>tzinfo\<close> occur: the organizer's zone, \<open>ZoneInfo(tz_name)\<close>,
  which \<open>replace(tzinfo=tz)\<close> gives to a timestamp parsed without offset, and the fixed
  offset \<open>tzoffset\<close> that \<open>isoparse\<close> gives to a timestamp written with one (\<open>Z\<close> is offset
  0), in seconds east of UTC.  One call builds one \<open>ZoneInfo\<close> object, so all zone-carrying
  values of a call share their \<open>tzinfo\<close>.
\<close>

datatype tz = ZoneInfo | tzoffset int

record aware =
  wall :: datetime
  tzinfo :: tz
  dt_fold :: bool

text \<open>A pair \<open>(start, end)\<close> of aware datetimes.\<close>

type_synonym slot = "aware \<times> aware"

text \<open>
  The organizer's zone is its offset rule: the UTC offset in seconds at a local reading and
  fold.  In a gap the rule gives the offset before the transition for \<open>fold = 0\<close> and the
  one after it for \<open>fold = 1\<close>; in a repeated hour it gives the first occurrence for
  \<open>fold = 0\<close> and the second for \<open>fold = 1\<close>.
\<close>

type_synonym zone = "datetime \<Rightarrow> bool \<Rightarrow> int"

definition dt_utcoffset :: "zone \<Rightarrow> aware \<Rightarrow> timedelta" where
  "dt_utcoffset z dt =
     (case tzinfo dt of ZoneInfo \<Rightarrow> z (wall dt) (dt_fold dt) | tzoffset k \<Rightarrow> k) * SECOND"

text \<open>The instant an aware datetime denotes, in microseconds on the UTC clock.\<close>

definition instant :: "zone \<Rightarrow> aware \<Rightarrow> datetime" where
  "instant z dt = wall dt - dt_utcoffset z dt"

text \<open>
  Comparison and subtraction of aware datetimes: two values with the same \<open>tzinfo\<close> object
  or the same offset are compared by their local readings, ignoring \<open>fold\<close>; otherwise both
  are taken to UTC.
\<close>

definition dt_lt :: "zone \<Rightarrow> aware \<Rightarrow> aware \<Rightarrow> bool" where
  "dt_lt z a b =
     (if tzinfo a = tzinfo b \<or> dt_utcoffset z a = dt_utcoffset z b then wall a < wall b
      else instant z a < instant z b)"

definition dt_le :: "zone \<Rightarrow> aware \<Rightarrow> aware \<Rightarrow> bool" where
  "dt_le z a b =
     (if tzinfo a = tzinfo b \<or> dt_utcoffset z a = dt_utcoffset z b then wall a \<le> wall b
      else instant z a \<le> instant z b)"

definition dt_sub :: "zone \<Rightarrow> aware \<Rightarrow> aware \<Rightarrow> timedelta" where
  "dt_sub z a b =
     (if tzinfo a = tzinfo b \<or> dt_utcoffset z a = dt_utcoffset z b then wall a - wall b
      else instant z a - instant z b)"

text \<open>
  \<open>datetime + timedelta\<close> moves the local reading, keeps the \<open>tzinfo\<close>, resets \<open>fold\<close> and
  raises \<open>OverflowError\<close> when the result leaves the years 1 to 9999
  (\<open>date.max.toordinal() = 3652059\<close>).
\<close>

definition MAXORDINAL :: int where "MAXORDINAL = 3652059"

definition dt_add :: "aware \<Rightarrow> timedelta \<Rightarrow> error + aware" where
  "dt_add dt d =
     (let w = wall dt + d
      in if 0 \<le> w \<and> w < MAXORDINAL * DAY then Inr (dt\<lparr>wall := w, dt_fold := False\<rparr>)
         else Inl OverflowError)"



text \<open>
  \<open>iso\<close>: \<open>dt.replace(microsecond=0).isoformat()\<close>.  The string shows the local reading in
  whole seconds and the UTC offset at that reading; it is kept as the fixed-offset value it
  spells.  \<open>isoparse\<close> reads such a string back, and raises \<open>ValueError\<close> for an offset that
  is not a whole number of minutes, which \<open>isoformat\<close> writes as \<open>+HH:MM:SS\<close>.
\<close>

definition iso :: "zone \<Rightarrow> aware \<Rightarrow> aware" where
  "iso z dt =
     (let dt0 = dt\<lparr>wall := wall dt - wall dt mod SECOND\<rparr>
      in \<lparr>wall = wall dt0, tzinfo = tzoffset (dt_utcoffset z dt0 div SECOND), dt_fold = False\<rparr>)"


text \<open>
  America/New\_York for the local readings of 2024: UTC-5, and UTC-4 from 10 March 02:00
  (day 738954 of the calendar, a gap of one hour) to 3 November 02:00 (day 739192, when
  01:00 to 02:00 is repeated).
\<close>

definition new_york_2024 :: zone where
  "new_york_2024 w fd =
     (let spring = 738954 * DAY + 2 * HOUR; fall = 739192 * DAY + HOUR
      in if w < spring then - 18000
         else if w < spring + HOUR then (if fd then - 14400 else - 18000)
         else if w < fall then - 14400
         else if w < fall + HOUR then (if fd then - 18000 else - 14400)
         else - 18000)"

text \<open>A timestamp parsed without offset and put in the organizer's zone, and one parsed
  with an offset.\<close>

definition naive :: "datetime \<Rightarrow> aware" where
  "naive w = \<lparr>wall = w, tzinfo = ZoneInfo, dt_fold = False\<rparr>"


section \<open>Event commit normalizer (\<open>google_tools.create_event\<close>)\<close>

text \<open>
  \<open>create_event\<close> after both timestamps are parsed and put in the organizer's zone (by
  \<open>replace(tzinfo=tz)\<close> when written without offset, by \<open>astimezone(tz)\<close> otherwise):
  \<open>start_dt\<close>, \<open>end_dt\<close> and \<open>now_local = datetime.now(tz)\<close> carry the zone.  In a repeated
  hour \<open>astimezone\<close> and \<open>now\<close> set \<open>fold\<close> on the second occurrence.  \<open>roll_forward\<close> is the
  block "If the suggested slot is in the past, roll forward to the next valid week";
  \<open>(now_local - end_dt).days\<close> is the floor of the difference in days, and each \<open>+= jump\<close>
  may raise \<open>OverflowError\<close>.  The event is committed with the \<open>isoformat\<close> of the two
  results, which spells their instants.
\<close>

definition roll_forward :: "zone \<Rightarrow> aware \<Rightarrow> slot \<Rightarrow> error + slot" where
  "roll_forward z now_local sl =
     (case sl of (start_dt, end_dt) \<Rightarrow>
        if dt_le z end_dt now_local then
          let delta_days = dt_sub z now_local end_dt div DAY;
              weeks = delta_days div 7 + 1;
              jump = 7 * weeks * DAY
          in (case dt_add start_dt jump of
                Inl e \<Rightarrow> Inl e
              | Inr start_dt' \<Rightarrow>
                  (case dt_add end_dt jump of
                     Inl e \<Rightarrow> Inl e
                   | Inr end_dt' \<Rightarrow> Inr (start_dt', end_dt')))
        else Inr (start_dt, end_dt))"

definition create_event :: "zone \<Rightarrow> aware \<Rightarrow> aware \<Rightarrow> aware \<Rightarrow> error + slot" where
  "create_event z now_local start_dt end_dt =
     (case roll_forward z now_local (start_dt, end_dt) of
        Inl e \<Rightarrow> Inl e
      | Inr (start_dt', end_dt') \<Rightarrow>
          if dt_le z end_dt' start_dt' then Inl ValueError else Inr (start_dt', end_dt'))"

lemma week_div_bounds:
  fixes d W :: int
  assumes "0 < W"
  shows "d div W * W \<le> d" and "d < (d div W + 1) * W"
proof -
  have eq: "d div W * W + d mod W = d" by (rule div_mult_mod_eq)
  have lo: "0 \<le> d mod W" and hi: "d mod W < W" using assms by simp_all
  show "d div W * W \<le> d" using eq lo by linarith
  have "(d div W + 1) * W = d div W * W + W" by (simp add: algebra_simps)
  then show "d < (d div W + 1) * W" using eq hi by linarith
qed

lemma weeks_bounds:
  fixes d :: int
  assumes "0 \<le> d"
  defines "weeks \<equiv> d div DAY div 7 + 1"
  shows "d < weeks * (7 * DAY)" and "1 \<le> weeks" and "\<And>k. k < weeks \<Longrightarrow> k * (7 * DAY) \<le> d"
proof -
  have W: "0 < 7 * DAY" using DAY_pos by simp
  have w: "weeks = d div (7 * DAY) + 1"
    unfolding weeks_def using DAY_pos by (simp add: zdiv_zmult2_eq mult.commute)
  show "d < weeks * (7 * DAY)" unfolding w using week_div_bounds(2) [OF W] .
  have "0 \<le> d div (7 * DAY)" using assms(1) W by (simp add: pos_imp_zdiv_nonneg_iff)
  then show "1 \<le> weeks" unfolding w by simp
  fix k assume "k < weeks"
  then have "k \<le> d div (7 * DAY)" unfolding w by simp
  then have "k * (7 * DAY) \<le> (d div (7 * DAY)) * (7 * DAY)"
    using W by (simp add: mult_right_mono)
  also have "\<dots> \<le> d" using week_div_bounds(1) [OF W] .
  finally show "k * (7 * DAY) \<le> d" .
qed

text \<open>
  What the block does guarantee.  All three datetimes carry the zone, so the test and the
  difference read local clocks: a slot whose end reads at or before now is moved by
  \<open>weeks * 7\<close> days with \<open>weeks = floor((now - end).days / 7) + 1\<close>, the least number of
  weeks after which the end reads later than now, unless the sum overflows; a slot whose
  end reads later than now is kept.
\<close>

lemma roll_forward_local_reading:
  assumes "tzinfo end_dt = tzinfo now_local"
  shows "(wall end_dt \<le> wall now_local \<longrightarrow>
            (let weeks = (wall now_local - wall end_dt) div DAY div 7 + 1 in
               roll_forward z now_local (start_dt, end_dt)
                 = (case dt_add start_dt (7 * weeks * DAY) of
                      Inl e \<Rightarrow> Inl e
                    | Inr start_dt' \<Rightarrow>
                        (case dt_add end_dt (7 * weeks * DAY) of
                           Inl e \<Rightarrow> Inl e
                         | Inr end_dt' \<Rightarrow> Inr (start_dt', end_dt')))
               \<and> 1 \<le> weeks \<and> wall now_local < wall end_dt + weeks * (7 * DAY)
               \<and> (\<forall>k. k < weeks \<longrightarrow> wall end_dt + k * (7 * DAY) \<le> wall now_local)))
       \<and> (wall now_local < wall end_dt \<longrightarrow>
            roll_forward z now_local (start_dt, end_dt) = Inr (start_dt, end_dt))"
proof (intro conjI impI)
  assume past: "wall end_dt \<le> wall now_local"
  then have d: "0 \<le> wall now_local - wall end_dt" by simp
  note b = weeks_bounds [OF d]
  have le: "dt_le z end_dt now_local" using assms past by (simp add: dt_le_def)
  have sub: "dt_sub z now_local end_dt = wall now_local - wall end_dt"
    using assms by (simp add: dt_sub_def)
  have run: "roll_forward z now_local (start_dt, end_dt)
      = (case dt_add start_dt (7 * ((wall now_local - wall end_dt) div DAY div 7 + 1) * DAY) of
           Inl e \<Rightarrow> Inl e
         | Inr start_dt' \<Rightarrow>
             (case dt_add end_dt (7 * ((wall now_local - wall end_dt) div DAY div 7 + 1) * DAY) of
                Inl e \<Rightarrow> Inl e
              | Inr end_dt' \<Rightarrow> Inr (start_dt', end_dt')))"
    using le by (simp add: roll_forward_def sub Let_def)
  have after: "wall now_local < wall end_dt + ((wall now_local - wall end_dt) div DAY div 7 + 1) * (7 * DAY)"
    using b(1) by linarith
  have least: "\<forall>k. k < (wall now_local - wall end_dt) div DAY div 7 + 1
                  \<longrightarrow> wall end_dt + k * (7 * DAY) \<le> wall now_local"
  proof (intro allI impI)
    fix k assume "k < (wall now_local - wall end_dt) div DAY div 7 + 1"
    from b(3) [OF this] show "wall end_dt + k * (7 * DAY) \<le> wall now_local" by linarith
  qed
  show "let weeks = (wall now_local - wall end_dt) div DAY div 7 + 1 in
               roll_forward z now_local (start_dt, end_dt)
                 = (case dt_add start_dt (7 * weeks * DAY) of
                      Inl e \<Rightarrow> Inl e
                    | Inr start_dt' \<Rightarrow>
                        (case dt_add end_dt (7 * weeks * DAY) of
                           Inl e \<Rightarrow> Inl e
                         | Inr end_dt' \<Rightarrow> Inr (start_dt', end_dt')))
               \<and> 1 \<le> weeks \<and> wall now_local < wall end_dt + weeks * (7 * DAY)
               \<and> (\<forall>k. k < weeks \<longrightarrow> wall end_dt + k * (7 * DAY) \<le> wall now_local)"
    unfolding Let_def using run b(2) after least by (intro conjI)
next
  assume "wall now_local < wall end_dt"
  then have "\<not> dt_le z end_dt now_local" using assms by (simp add: dt_le_def)
  then show "roll_forward z now_local (start_dt, end_dt) = Inr (start_dt, end_dt)"
    by (simp add: roll_forward_def)
qed

text \<open>
  The sum \<open>start_dt += jump\<close> comes first: with the start in the last days of the year 9999
  and the end in the past the call raises \<open>OverflowError\<close>, not the \<open>ValueError\<close> of the
  order check.
\<close>

lemma create_event_overflow:
  "create_event new_york_2024 (naive (739192 * DAY))
     (naive (3652058 * DAY)) (naive (739185 * DAY)) = Inl OverflowError"
  by (simp add: create_event_def roll_forward_def dt_add_def dt_le_def dt_sub_def naive_def
        MAXORDINAL_def DAY_def HOUR_def MINUTE_def SECOND_def Let_def)

text \<open>
  C1.  The claim reads "strictly after now" and "already strictly after now" of the
  committed instants; the block tests local clock readings.  On 3 November 2024 in
  America/New\_York the hour from 01:00 to 02:00 occurs twice.

  With \<open>start_time = 2024-10-27T01:15:00\<close>, \<open>end_time = 2024-10-27T01:45:00\<close> and now the
  second 01:30 of 3 November (06:30 UTC), the slot is moved by one week and committed as
  \<open>2024-11-03T01:45:00-04:00\<close>, the first 01:45 (05:45 UTC): its end is 45 minutes before
  now.

  With \<open>start_time = 2024-11-03T01:15:00-05:00\<close>, \<open>end_time = 2024-11-03T01:45:00-05:00\<close>
  (the second 01:45, 06:45 UTC) and now the first 01:50 (05:50 UTC), the end is already
  strictly after now, and the slot is moved by a week all the same.
\<close>

theorem create_event_not_after_now:
  "create_event new_york_2024
       \<lparr>wall = 739192 * DAY + 90 * MINUTE, tzinfo = ZoneInfo, dt_fold = True\<rparr>
       (naive (739185 * DAY + 75 * MINUTE)) (naive (739185 * DAY + 105 * MINUTE))
     = Inr (naive (739192 * DAY + 75 * MINUTE), naive (739192 * DAY + 105 * MINUTE))
   \<and> instant new_york_2024 (naive (739192 * DAY + 105 * MINUTE))
       = 739192 * DAY + 5 * HOUR + 45 * MINUTE
   \<and> instant new_york_2024 \<lparr>wall = 739192 * DAY + 90 * MINUTE, tzinfo = ZoneInfo, dt_fold = True\<rparr>
       = 739192 * DAY + 6 * HOUR + 30 * MINUTE
   \<and> instant new_york_2024 (naive (739192 * DAY + 105 * MINUTE))
       < instant new_york_2024 \<lparr>wall = 739192 * DAY + 90 * MINUTE, tzinfo = ZoneInfo, dt_fold = True\<rparr>
   \<and> instant new_york_2024 (naive (739192 * DAY + 110 * MINUTE))
       < instant new_york_2024 \<lparr>wall = 739192 * DAY + 105 * MINUTE, tzinfo = ZoneInfo, dt_fold = True\<rparr>
   \<and> create_event new_york_2024 (naive (739192 * DAY + 110 * MINUTE))
       \<lparr>wall = 739192 * DAY + 75 * MINUTE, tzinfo = ZoneInfo, dt_fold = True\<rparr>
       \<lparr>wall = 739192 * DAY + 105 * MINUTE, tzinfo = ZoneInfo, dt_fold = True\<rparr>
     = Inr (naive (739199 * DAY + 75 * MINUTE), naive (739199 * DAY + 105 * MINUTE))"
  by (simp add: create_event_def roll_forward_def dt_add_def dt_le_def dt_sub_def instant_def
        dt_utcoffset_def new_york_2024_def naive_def MAXORDINAL_def
        DAY_def HOUR_def MINUTE_def SECOND_def Let_def)

section \<open>Slot suggestion engine (\<open>mock_tools.suggest_times\<close>)\<close>

text \<open>
  The tool's input \<open>availability_blocks\<close> holds the window and the busy blocks, here after
  \<open>isoparse\<close> and the coercion \<open>replace(tzinfo=tz)\<close> of the timestamps written without
  offset; the result carries the window again, as strings, and the candidates (each with
  the constant score \<open>0.8\<close>, which no property below depends on and the model leaves
  out).  \<open>duration\<close> is \<open>timedelta(minutes=duration_minutes)\<close>, \<open>hstart\<close> and \<open>hend\<close> are
  the (hour, minute) pairs of \<open>preferences.hours\<close>, \<open>days\<close> the weekday names of
  \<open>preferences.days\<close>, and \<open>z\<close> is the offset rule of \<open>ZoneInfo(tz_name)\<close>.
\<close>

record aware_window =
  window_start :: aware
  window_end :: aware

record availability_blocks = aware_window +
  busy :: "slot list"






text \<open>
  "Subtract busy from free" on aware datetimes: the loops of \<open>subtract_one\<close> and
  \<open>subtract_busy\<close> with Python's comparisons.
\<close>

fun subtract_one_dt :: "zone \<Rightarrow> slot \<Rightarrow> slot list \<Rightarrow> slot list" where
  "subtract_one_dt z (bs, be) [] = []"
| "subtract_one_dt z (bs, be) ((xs, xe) # segments) =
     (if dt_le z xe bs \<or> dt_le z be xs then [(xs, xe)]
      else (if dt_lt z xs bs then [(xs, bs)] else []) @ (if dt_lt z be xe then [(be, xe)] else []))
     @ subtract_one_dt z (bs, be) segments"

fun subtract_busy_dt :: "zone \<Rightarrow> slot list \<Rightarrow> slot list \<Rightarrow> slot list" where
  "subtract_busy_dt z segments [] = segments"
| "subtract_busy_dt z segments (b # busy_blocks) =
     subtract_busy_dt z (subtract_one_dt z b segments) busy_blocks"




subsection \<open>The loops as list functions\<close>

text \<open>
  \<open>dt_plus\<close> is the sum \<open>dt + d\<close> where it does not overflow.  \<open>valid_slots\<close> lists the slots
  of all refined blocks that pass the check \<open>end_dt <= block end\<close>, in order, which the
  proposal loop would collect without its \<open>break\<close>; \<open>free_segments\<close> lists the free
  segments of all blocks, in order, before the length filter.
\<close>

definition dt_plus :: "aware \<Rightarrow> timedelta \<Rightarrow> aware" where
  "dt_plus dt d = dt\<lparr>wall := wall dt + d, dt_fold := False\<rparr>"

definition valid_slots :: "zone \<Rightarrow> timedelta \<Rightarrow> slot list \<Rightarrow> slot list" where
  "valid_slots z duration refined =
     map (\<lambda>(s, e). (iso z s, iso z (dt_plus s duration)))
       (filter (\<lambda>(s, e). dt_le z (dt_plus s duration) e) refined)"

definition free_segments :: "zone \<Rightarrow> slot list \<Rightarrow> slot list \<Rightarrow> slot list" where
  "free_segments z busy_blocks blocks =
     concat (map (\<lambda>block. subtract_busy_dt z [block] busy_blocks) blocks)"




lemma valid_slots_Nil [simp]: "valid_slots z d [] = []"
  by (simp add: valid_slots_def)


lemma free_segments_Nil [simp]: "free_segments z busy_blocks [] = []"
  by (simp add: free_segments_def)













subsection \<open>A zone that keeps one offset\<close>

text \<open>
  \<open>steady z c\<close>: the organizer's zone has the UTC offset \<open>c\<close> (in seconds) at every local
  reading, so it has no transition.  Then every comparison and difference of the engine
  is one of instants, and a run of the engine is a run of the loops on one timeline:
  \<open>line_of z shift\<close> reads an aware datetime on the clock that is \<open>shift\<close> ahead of UTC.
\<close>

definition steady :: "zone \<Rightarrow> int \<Rightarrow> bool" where
  "steady z c = (\<forall>w fd. z w fd = c)"

definition fixed_zone :: "int \<Rightarrow> zone" where
  "fixed_zone c w fd = c"




lemma steady_fixed_zone: "steady (fixed_zone c) c"
  by (simp add: steady_def fixed_zone_def)






































subsection \<open>Claims about the engine\<close>










section \<open>Tool orchestration loop (\<open>main.chat\<close>)\<close>

text \<open>
  A decoded JSON value.  An object is the Python \<open>dict\<close> the decoder builds: an association
  list with distinct keys, in insertion order.  A number keeps its literal.
\<close>

datatype json =
    JNull
  | JBool bool
  | JNum string
  | JStr string
  | JArr "json list"
  | JObj "(string \<times> json) list"

type_synonym pydict = "(string \<times> json) list"

text \<open>\<open>d.setdefault(k, v)\<close>: a key that is present keeps its value.\<close>

definition setdefault :: "pydict \<Rightarrow> string \<Rightarrow> json \<Rightarrow> pydict" where
  "setdefault d k v = (if map_of d k \<noteq> None then d else d @ [(k, v)])"

text \<open>\<open>str.strip()\<close> and \<open>str.startswith\<close>, on texts of 8-bit characters; the white space
  among them is what \<open>str.isspace\<close> accepts.\<close>

definition isspace :: "char \<Rightarrow> bool" where
  "isspace c = (c \<in> set [CHR 0x09, CHR 0x0A, CHR 0x0B, CHR 0x0C, CHR 0x0D, CHR 0x1C, CHR 0x1D,
                           CHR 0x1E, CHR 0x1F, CHR 0x20, CHR 0x85, CHR 0xA0])"

definition strip :: "string \<Rightarrow> string" where
  "strip s = rev (dropWhile isspace (rev (dropWhile isspace s)))"

definition startswith :: "string \<Rightarrow> string \<Rightarrow> bool" where
  "startswith s prefix = (take (length prefix) s = prefix)"

text \<open>
  \<open>maybe_parse_tool_call\<close>.  \<open>loads\<close> is \<open>json.loads\<close>, a library function taken as a
  parameter; it returns the decoded value or raises.  The source catches its
  \<open>JSONDecodeError\<close> and nothing else: any other exception of the decoder (\<open>RecursionError\<close>
  on a deeply nested text, \<open>ValueError\<close> on an integer literal of more than 4300 digits)
  leaves \<open>maybe_parse_tool_call\<close>.
\<close>

definition maybe_parse_tool_call ::
  "(string \<Rightarrow> error + json) \<Rightarrow> string \<Rightarrow> error + pydict option" where
  "maybe_parse_tool_call loads text0 =
     (let text = strip text0 in
      if \<not> startswith text ''{'' then Inr None
      else (case loads text of
              Inr (JObj obj) \<Rightarrow>
                if map_of obj ''tool'' \<noteq> None \<and> map_of obj ''args'' \<noteq> None
                then Inr (Some obj) else Inr None
            | Inr _ \<Rightarrow> Inr None
            | Inl JSONDecodeError \<Rightarrow> Inr None
            | Inl e \<Rightarrow> Inl e))"

text \<open>
  The registry of \<open>tools/__init__.py\<close>: three fixed names.  The tools themselves reach the
  calendar backend and are parameters; a tool maps its \<open>args\<close> to a result or raises.
\<close>

type_synonym tool = "pydict \<Rightarrow> error + json"

definition TOOL_REGISTRY :: "tool \<Rightarrow> tool \<Rightarrow> tool \<Rightarrow> string \<Rightarrow> tool option" where
  "TOOL_REGISTRY get_availability_tool suggest_times_tool create_event_tool =
     map_of [(''get_availability'', get_availability_tool),
             (''suggest_times'', suggest_times_tool),
             (''create_event'', create_event_tool)]"

text \<open>\<open>TOOL_REGISTRY.get(name)\<close>: a list or an object cannot be hashed (\<open>TypeError\<close>); a value
  that is not a string equals no key.\<close>

definition registry_get :: "(string \<Rightarrow> tool option) \<Rightarrow> json \<Rightarrow> error + tool option" where
  "registry_get registry name =
     (case name of
        JStr n \<Rightarrow> Inr (registry n)
      | JArr _ \<Rightarrow> Inl TypeError
      | JObj _ \<Rightarrow> Inl TypeError
      | _ \<Rightarrow> Inr None)"

datatype message = Message (role: string) (content: string)

text \<open>
  \<open>chat\<close>.  \<open>call_llm\<close> is the model client (it raises \<open>HTTPException\<close> 502 or 504),
  \<open>dumps\<close> is \<open>json.dumps\<close>, \<open>system_prompt\<close> the constant \<open>SYSTEM_PROMPT\<close>.  The result is
  the list of tool invocations made, each the name and the \<open>args\<close> the tool received,
  and the reply or the exception raised.  An exception that the source does not turn into
  an \<open>HTTPException\<close> is returned as it is raised.
\<close>

definition chat ::
  "(message list \<Rightarrow> error + string) \<Rightarrow> (string \<Rightarrow> error + json) \<Rightarrow> (string \<Rightarrow> tool option) \<Rightarrow>
     (json \<Rightarrow> string) \<Rightarrow> string \<Rightarrow> string \<Rightarrow> string \<Rightarrow> (json \<times> pydict) list \<times> (error + string)" where
  "chat call_llm loads registry dumps system_prompt user_id message =
     (let messages = [Message ''system'' system_prompt, Message ''user'' message] in
      case call_llm messages of
        Inl e \<Rightarrow> ([], Inl e)
      | Inr first \<Rightarrow>
          (case maybe_parse_tool_call loads first of
             Inl e \<Rightarrow> ([], Inl e)
           | Inr None \<Rightarrow> ([], Inr first)
           | Inr (Some tool_call) \<Rightarrow>
               (case map_of tool_call ''tool'' of
                  None \<Rightarrow> ([], Inl KeyError)
                | Some name \<Rightarrow>
                    (case (case map_of tool_call ''args'' of None \<Rightarrow> JObj [] | Some a \<Rightarrow> a) of
                       JObj args0 \<Rightarrow>
                         (let args = setdefault args0 ''organizer_user_id'' (JStr user_id) in
                          case registry_get registry name of
                            Inl e \<Rightarrow> ([], Inl e)
                          | Inr None \<Rightarrow> ([], Inl (HTTPException 400))
                          | Inr (Some func) \<Rightarrow>
                              (case func args of
                                 Inl e \<Rightarrow> ([(name, args)], Inl (HTTPException 500))
                               | Inr result \<Rightarrow>
                                   (let messages' = messages @
                                          [Message ''assistant''
                                             (dumps (JObj [(''tool_result'',
                                                JObj [(''name'', name), (''result'', result)])]))]
                                    in case call_llm messages' of
                                         Inl e \<Rightarrow> ([(name, args)], Inl e)
                                       | Inr final \<Rightarrow>
                                           ([(name, args)],
                                            Inr (if final = [] then ''(no response)'' else final)))))
                     | _ \<Rightarrow> ([], Inl AttributeError)))))"

text \<open>
  To run the loop on a concrete reply the decoder is given by a table, its value on the
  replies at hand; what it does on another text is not used.
\<close>

definition loads_table :: "(string \<times> json) list \<Rightarrow> string \<Rightarrow> error + json" where
  "loads_table table text =
     (case map_of table text of Some v \<Rightarrow> Inr v | None \<Rightarrow> Inl JSONDecodeError)"

text \<open>A reply whose \<open>tool\<close> is an integer literal of 4301 digits: \<open>json.loads\<close> raises
  \<open>ValueError\<close> on it, as \<open>int\<close> does on more than 4300 digits.\<close>

definition long_int_reply :: string where
  \<open>long_int_reply = ''{"tool":'' @ replicate 4301 (CHR ''1'') @ '',"args":{}}''\<close>

subsection \<open>Properties of the loop\<close>

lemma maybe_parse_tool_call_Some:
  "maybe_parse_tool_call loads first = Inr (Some obj) \<longleftrightarrow>
     startswith (strip first) ''{'' \<and> loads (strip first) = Inr (JObj obj)
     \<and> map_of obj ''tool'' \<noteq> None \<and> map_of obj ''args'' \<noteq> None"
  by (auto simp: maybe_parse_tool_call_def Let_def split: sum.splits json.splits error.splits)

lemma maybe_parse_tool_call_None:
  "maybe_parse_tool_call loads first = Inr None \<longleftrightarrow>
     \<not> startswith (strip first) ''{''
     \<or> loads (strip first) = Inl JSONDecodeError
     \<or> (\<exists>v. loads (strip first) = Inr v
           \<and> (\<forall>obj. v = JObj obj \<longrightarrow> map_of obj ''tool'' = None \<or> map_of obj ''args'' = None))"
  by (auto simp: maybe_parse_tool_call_def Let_def split: sum.splits json.splits error.splits)

lemma maybe_parse_tool_call_raises:
  "maybe_parse_tool_call loads first = Inl e \<longleftrightarrow>
     startswith (strip first) ''{'' \<and> loads (strip first) = Inl e \<and> e \<noteq> JSONDecodeError"
  by (auto simp: maybe_parse_tool_call_def Let_def split: sum.splits json.splits error.splits)

lemma TOOL_REGISTRY_known:
  "TOOL_REGISTRY ga st ce name \<noteq> None \<longleftrightarrow>
     name \<in> {''get_availability'', ''suggest_times'', ''create_event''}"
  by (simp add: TOOL_REGISTRY_def)

lemma chat_plain:
  assumes "call_llm [Message ''system'' system_prompt, Message ''user'' message] = Inr first"
    and "maybe_parse_tool_call loads first = Inr None"
  shows "chat call_llm loads registry dumps system_prompt user_id message = ([], Inr first)"
  using assms by (simp add: chat_def)

lemma chat_decoder_raises:
  assumes "call_llm [Message ''system'' system_prompt, Message ''user'' message] = Inr first"
    and "maybe_parse_tool_call loads first = Inl e"
  shows "chat call_llm loads registry dumps system_prompt user_id message = ([], Inl e)"
  using assms by (simp add: chat_def)

lemma chat_unknown_tool:
  assumes "call_llm [Message ''system'' system_prompt, Message ''user'' message] = Inr first"
    and "maybe_parse_tool_call loads first = Inr (Some obj)"
    and "map_of obj ''tool'' = Some (JStr name)" and "map_of obj ''args'' = Some (JObj args)"
    and "registry name = None"
  shows "chat call_llm loads registry dumps system_prompt user_id message
           = ([], Inl (HTTPException 400))"
  using assms by (simp add: chat_def registry_get_def)

lemma chat_dispatch:
  assumes "call_llm [Message ''system'' system_prompt, Message ''user'' message] = Inr first"
    and "maybe_parse_tool_call loads first = Inr (Some obj)"
    and "map_of obj ''tool'' = Some (JStr name)" and "map_of obj ''args'' = Some (JObj args)"
    and "registry name = Some func"
  shows "fst (chat call_llm loads registry dumps system_prompt user_id message)
           = [(JStr name, setdefault args ''organizer_user_id'' (JStr user_id))]"
  using assms by (simp add: chat_def registry_get_def Let_def split: sum.splits)

lemma chat_detected_not_plain:
  assumes "call_llm [Message ''system'' system_prompt, Message ''user'' message] = Inr first"
    and "maybe_parse_tool_call loads first = Inr (Some obj)"
  shows "chat call_llm loads registry dumps system_prompt user_id message \<noteq> ([], Inr reply)"
  using assms
  by (auto simp: chat_def Let_def split: sum.splits option.splits json.splits)

lemma chat_second_reply_nonempty:
  assumes "chat call_llm loads registry dumps system_prompt user_id message = (calls, Inr reply)"
    and "calls \<noteq> []"
  shows "reply \<noteq> []"
  using assms
  by (auto simp: chat_def Let_def split: sum.splits option.splits json.splits if_splits)

lemma setdefault_absent:
  "map_of d k = None \<Longrightarrow> map_of (setdefault d k v) k = Some v"
  by (simp add: setdefault_def map_add_def)

lemma setdefault_present:
  "map_of d k = Some w \<Longrightarrow> setdefault d k v = d"
  by (simp add: setdefault_def)

lemma strip_unchanged:
  assumes "s \<noteq> []" and "\<not> isspace (hd s)" and "\<not> isspace (last s)"
  shows "strip s = s"
proof -
  have keep: "dropWhile isspace xs = xs" if "xs \<noteq> []" and "\<not> isspace (hd xs)" for xs
    using that by (cases xs) simp_all
  from assms(1,2) have front: "dropWhile isspace s = s" by (rule keep)
  from assms(1,3) have "dropWhile isspace (rev s) = rev s"
    by (intro keep) (simp_all add: hd_rev)
  with front show ?thesis by (simp add: strip_def)
qed

lemma strip_long_int_reply: "strip long_int_reply = long_int_reply"
  by (rule strip_unchanged) (simp_all add: long_int_reply_def isspace_def)

lemma startswith_long_int_reply: \<open>startswith long_int_reply ''{''\<close>
  by (simp add: long_int_reply_def startswith_def)

subsection \<open>Claims about the loop\<close>

text \<open>
  C3, as stated, fails.  A reply that parses as an object with both keys is handled as a
  tool call whatever the values are: with a \<open>tool\<close> that is not a known name the request
  fails with status 400, and with an \<open>args\<close> that is not an object it fails with
  \<open>AttributeError\<close>; neither reply is returned as text.  And a reply on which the decoder
  raises another exception than \<open>JSONDecodeError\<close> is not returned as text either.
\<close>

theorem tool_call_detection_counterexample:
  \<open>''foo'' \<notin> {''get_availability'', ''suggest_times'', ''create_event''}
   \<and> maybe_parse_tool_call
       (loads_table [(''{"tool":"foo","args":{}}'', JObj [(''tool'', JStr ''foo''), (''args'', JObj [])])])
       ''{"tool":"foo","args":{}}''
     = Inr (Some [(''tool'', JStr ''foo''), (''args'', JObj [])])
   \<and> chat (\<lambda>messages. Inr ''{"tool":"foo","args":{}}'')
        (loads_table [(''{"tool":"foo","args":{}}'', JObj [(''tool'', JStr ''foo''), (''args'', JObj [])])])
        (TOOL_REGISTRY (\<lambda>args. Inr JNull) (\<lambda>args. Inr JNull) (\<lambda>args. Inr JNull))
        (\<lambda>v. ''{}'') ''You are a scheduling assistant'' ''alice'' ''hello''
     = ([], Inl (HTTPException 400))
   \<and> maybe_parse_tool_call
       (loads_table [(''{"tool":"get_availability","args":5}'',
                      JObj [(''tool'', JStr ''get_availability''), (''args'', JNum ''5'')])])
       ''{"tool":"get_availability","args":5}''
     = Inr (Some [(''tool'', JStr ''get_availability''), (''args'', JNum ''5'')])
   \<and> chat (\<lambda>messages. Inr ''{"tool":"get_availability","args":5}'')
        (loads_table [(''{"tool":"get_availability","args":5}'',
                       JObj [(''tool'', JStr ''get_availability''), (''args'', JNum ''5'')])])
        (TOOL_REGISTRY (\<lambda>args. Inr JNull) (\<lambda>args. Inr JNull) (\<lambda>args. Inr JNull))
        (\<lambda>v. ''{}'') ''You are a scheduling assistant'' ''alice'' ''hello''
     = ([], Inl AttributeError)
   \<and> chat (\<lambda>messages. Inr long_int_reply)
        (\<lambda>text. if text = long_int_reply then Inl ValueError else loads_table [] text)
        (TOOL_REGISTRY (\<lambda>args. Inr JNull) (\<lambda>args. Inr JNull) (\<lambda>args. Inr JNull))
        (\<lambda>v. ''{}'') ''You are a scheduling assistant'' ''alice'' ''hello''
     = ([], Inl ValueError)\<close>
proof -
  have foo: \<open>maybe_parse_tool_call
       (loads_table [(''{"tool":"foo","args":{}}'', JObj [(''tool'', JStr ''foo''), (''args'', JObj [])])])
       ''{"tool":"foo","args":{}}''
     = Inr (Some [(''tool'', JStr ''foo''), (''args'', JObj [])])\<close>
    by (simp add: maybe_parse_tool_call_def loads_table_def strip_def isspace_def startswith_def)
  have five: \<open>maybe_parse_tool_call
       (loads_table [(''{"tool":"get_availability","args":5}'',
                      JObj [(''tool'', JStr ''get_availability''), (''args'', JNum ''5'')])])
       ''{"tool":"get_availability","args":5}''
     = Inr (Some [(''tool'', JStr ''get_availability''), (''args'', JNum ''5'')])\<close>
    by (simp add: maybe_parse_tool_call_def loads_table_def strip_def isspace_def startswith_def)
  have long: \<open>maybe_parse_tool_call
       (\<lambda>text. if text = long_int_reply then Inl ValueError else loads_table [] text)
       long_int_reply = Inl ValueError\<close>
    using startswith_long_int_reply
    by (simp add: maybe_parse_tool_call_def strip_long_int_reply)
  have c1: \<open>chat (\<lambda>messages. Inr ''{"tool":"foo","args":{}}'')
        (loads_table [(''{"tool":"foo","args":{}}'', JObj [(''tool'', JStr ''foo''), (''args'', JObj [])])])
        (TOOL_REGISTRY (\<lambda>args. Inr JNull) (\<lambda>args. Inr JNull) (\<lambda>args. Inr JNull))
        (\<lambda>v. ''{}'') ''You are a scheduling assistant'' ''alice'' ''hello''
     = ([], Inl (HTTPException 400))\<close>
    by (simp add: chat_def foo registry_get_def TOOL_REGISTRY_def)
  have c2: \<open>chat (\<lambda>messages. Inr ''{"tool":"get_availability","args":5}'')
        (loads_table [(''{"tool":"get_availability","args":5}'',
                       JObj [(''tool'', JStr ''get_availability''), (''args'', JNum ''5'')])])
        (TOOL_REGISTRY (\<lambda>args. Inr JNull) (\<lambda>args. Inr JNull) (\<lambda>args. Inr JNull))
        (\<lambda>v. ''{}'') ''You are a scheduling assistant'' ''alice'' ''hello''
     = ([], Inl AttributeError)\<close>
    by (simp add: chat_def five)
  have c3: \<open>chat (\<lambda>messages. Inr long_int_reply)
        (\<lambda>text. if text = long_int_reply then Inl ValueError else loads_table [] text)
        (TOOL_REGISTRY (\<lambda>args. Inr JNull) (\<lambda>args. Inr JNull) (\<lambda>args. Inr JNull))
        (\<lambda>v. ''{}'') ''You are a scheduling assistant'' ''alice'' ''hello''
     = ([], Inl ValueError)\<close>
    by (simp add: chat_def long)
  have unknown: \<open>''foo'' \<notin> {''get_availability'', ''suggest_times'', ''create_event''}\<close>
    by simp
  from unknown foo c1 five c2 c3 show ?thesis by (intro conjI)
qed

text \<open>
  C3, amended.  The first model reply is handled as a tool call if and only if, after
  trimming white space, it starts with an opening brace and parses as a JSON object that
  contains both a \<open>tool\<close> key and an \<open>args\<close> key, whatever their values.  Every other reply
  that the decoder parses or rejects with \<open>JSONDecodeError\<close> (plain text, malformed JSON,
  JSON missing either key) is returned unchanged as the final reply, with no tool invoked.
  A detected call is never returned as text: when its \<open>args\<close> is an object and its \<open>tool\<close>
  is a string, the tool is invoked if the string is one of the three known names, and
  otherwise the request fails with status 400 and no tool invoked.  The reply
  "Sure, I can help." is never a tool call; the reply with both keys is one and the reply
  without \<open>args\<close> is not, for every decoder that reads these two texts as the objects
  they denote.
\<close>

theorem tool_call_detection:
  assumes first: \<open>call_llm [Message ''system'' system_prompt, Message ''user'' message] = Inr first\<close>
  shows \<open>((\<exists>obj. maybe_parse_tool_call loads first = Inr (Some obj)) \<longleftrightarrow>
            startswith (strip first) ''{''
            \<and> (\<exists>obj. loads (strip first) = Inr (JObj obj)
                  \<and> map_of obj ''tool'' \<noteq> None \<and> map_of obj ''args'' \<noteq> None))
       \<and> (\<not> startswith (strip first) ''{''
            \<or> loads (strip first) = Inl JSONDecodeError
            \<or> (\<exists>v. loads (strip first) = Inr v
                  \<and> (\<forall>obj. v = JObj obj \<longrightarrow> map_of obj ''tool'' = None \<or> map_of obj ''args'' = None))
           \<longrightarrow>
            chat call_llm loads (TOOL_REGISTRY ga st ce) dumps system_prompt user_id message
              = ([], Inr first))
       \<and> (\<forall>obj. maybe_parse_tool_call loads first = Inr (Some obj) \<longrightarrow>
            (\<forall>reply. chat call_llm loads (TOOL_REGISTRY ga st ce) dumps system_prompt user_id message
                       \<noteq> ([], Inr reply)))
       \<and> (\<forall>obj name args.
            maybe_parse_tool_call loads first = Inr (Some obj)
            \<and> map_of obj ''tool'' = Some (JStr name) \<and> map_of obj ''args'' = Some (JObj args) \<longrightarrow>
              (name \<in> {''get_availability'', ''suggest_times'', ''create_event''} \<longrightarrow>
                 fst (chat call_llm loads (TOOL_REGISTRY ga st ce) dumps system_prompt user_id message)
                   = [(JStr name, setdefault args ''organizer_user_id'' (JStr user_id))])
              \<and> (name \<notin> {''get_availability'', ''suggest_times'', ''create_event''} \<longrightarrow>
                 chat call_llm loads (TOOL_REGISTRY ga st ce) dumps system_prompt user_id message
                   = ([], Inl (HTTPException 400))))
       \<and> maybe_parse_tool_call loads ''Sure, I can help.'' = Inr None
       \<and> (loads ''{"tool":"get_availability","args":{}}''
              = Inr (JObj [(''tool'', JStr ''get_availability''), (''args'', JObj [])]) \<longrightarrow>
            maybe_parse_tool_call loads ''{"tool":"get_availability","args":{}}''
              = Inr (Some [(''tool'', JStr ''get_availability''), (''args'', JObj [])]))
       \<and> (loads ''{"tool":"get_availability"}'' = Inr (JObj [(''tool'', JStr ''get_availability'')]) \<longrightarrow>
            maybe_parse_tool_call loads ''{"tool":"get_availability"}'' = Inr None)\<close>
proof (intro conjI allI impI)
  show \<open>(\<exists>obj. maybe_parse_tool_call loads first = Inr (Some obj)) \<longleftrightarrow>
            startswith (strip first) ''{''
            \<and> (\<exists>obj. loads (strip first) = Inr (JObj obj)
                  \<and> map_of obj ''tool'' \<noteq> None \<and> map_of obj ''args'' \<noteq> None)\<close>
    unfolding maybe_parse_tool_call_Some by blast
next
  assume \<open>\<not> startswith (strip first) ''{''
            \<or> loads (strip first) = Inl JSONDecodeError
            \<or> (\<exists>v. loads (strip first) = Inr v
                  \<and> (\<forall>obj. v = JObj obj \<longrightarrow> map_of obj ''tool'' = None \<or> map_of obj ''args'' = None))\<close>
  then have "maybe_parse_tool_call loads first = Inr None"
    by (simp only: maybe_parse_tool_call_None)
  with first show "chat call_llm loads (TOOL_REGISTRY ga st ce) dumps system_prompt user_id message
              = ([], Inr first)"
    by (rule chat_plain)
next
  fix obj reply
  assume "maybe_parse_tool_call loads first = Inr (Some obj)"
  with first
  show "chat call_llm loads (TOOL_REGISTRY ga st ce) dumps system_prompt user_id message
          \<noteq> ([], Inr reply)"
    by (rule chat_detected_not_plain)
next
  fix obj name args
  assume call: "maybe_parse_tool_call loads first = Inr (Some obj)
            \<and> map_of obj ''tool'' = Some (JStr name) \<and> map_of obj ''args'' = Some (JObj args)"
    and known: "name \<in> {''get_availability'', ''suggest_times'', ''create_event''}"
  from known obtain func where "TOOL_REGISTRY ga st ce name = Some func"
    using TOOL_REGISTRY_known [of ga st ce name] by auto
  then show "fst (chat call_llm loads (TOOL_REGISTRY ga st ce) dumps system_prompt user_id message)
                   = [(JStr name, setdefault args ''organizer_user_id'' (JStr user_id))]"
    by (rule chat_dispatch [where call_llm = call_llm and registry = "TOOL_REGISTRY ga st ce",
          OF first call [THEN conjunct1] call [THEN conjunct2, THEN conjunct1]
          call [THEN conjunct2, THEN conjunct2]])
next
  fix obj name args
  assume call: "maybe_parse_tool_call loads first = Inr (Some obj)
            \<and> map_of obj ''tool'' = Some (JStr name) \<and> map_of obj ''args'' = Some (JObj args)"
    and unknown: "name \<notin> {''get_availability'', ''suggest_times'', ''create_event''}"
  from unknown have "TOOL_REGISTRY ga st ce name = None"
    using TOOL_REGISTRY_known [of ga st ce name] by blast
  then show "chat call_llm loads (TOOL_REGISTRY ga st ce) dumps system_prompt user_id message
                   = ([], Inl (HTTPException 400))"
    by (rule chat_unknown_tool [where call_llm = call_llm and registry = "TOOL_REGISTRY ga st ce",
          OF first call [THEN conjunct1] call [THEN conjunct2, THEN conjunct1]
          call [THEN conjunct2, THEN conjunct2]])
next
  show "maybe_parse_tool_call loads ''Sure, I can help.'' = Inr None"
    by (simp add: maybe_parse_tool_call_def strip_def isspace_def startswith_def)
next
  assume \<open>loads ''{"tool":"get_availability","args":{}}''
              = Inr (JObj [(''tool'', JStr ''get_availability''), (''args'', JObj [])])\<close>
  then show \<open>maybe_parse_tool_call loads ''{"tool":"get_availability","args":{}}''
              = Inr (Some [(''tool'', JStr ''get_availability''), (''args'', JObj [])])\<close>
    by (simp add: maybe_parse_tool_call_def strip_def isspace_def startswith_def)
next
  assume \<open>loads ''{"tool":"get_availability"}'' = Inr (JObj [(''tool'', JStr ''get_availability'')])\<close>
  then show \<open>maybe_parse_tool_call loads ''{"tool":"get_availability"}'' = Inr None\<close>
    by (simp add: maybe_parse_tool_call_def strip_def isspace_def startswith_def)
qed

theorem tool_call_detection_witness:
  \<open>maybe_parse_tool_call
       (loads_table [(''{"tool":"get_availability","args":{}}'',
                 JObj [(''tool'', JStr ''get_availability''), (''args'', JObj [])])])
       '' {"tool":"get_availability","args":{}} ''
     = Inr (Some [(''tool'', JStr ''get_availability''), (''args'', JObj [])])
   \<and> fst (chat (\<lambda>messages. Inr '' {"tool":"get_availability","args":{}} '')
        (loads_table [(''{"tool":"get_availability","args":{}}'',
                  JObj [(''tool'', JStr ''get_availability''), (''args'', JObj [])])])
        (TOOL_REGISTRY (\<lambda>args. Inr JNull) (\<lambda>args. Inr JNull) (\<lambda>args. Inr JNull))
        (\<lambda>v. ''{}'') ''You are a scheduling assistant'' ''alice'' ''find a slot'')
     = [(JStr ''get_availability'', [(''organizer_user_id'', JStr ''alice'')])]
   \<and> maybe_parse_tool_call
       (loads_table [(''{"tool":"get_availability","args":{}}'',
                 JObj [(''tool'', JStr ''get_availability''), (''args'', JObj [])])])
       ''Sure, I can help.'' = Inr None\<close>
proof -
  have parsed: \<open>maybe_parse_tool_call
       (loads_table [(''{"tool":"get_availability","args":{}}'',
                 JObj [(''tool'', JStr ''get_availability''), (''args'', JObj [])])])
       '' {"tool":"get_availability","args":{}} ''
     = Inr (Some [(''tool'', JStr ''get_availability''), (''args'', JObj [])])\<close>
    by (simp add: maybe_parse_tool_call_def loads_table_def strip_def isspace_def startswith_def)
  note t = tool_call_detection
    [where call_llm = \<open>\<lambda>messages. Inr '' {"tool":"get_availability","args":{}} ''\<close>
       and first = \<open>'' {"tool":"get_availability","args":{}} ''\<close>
       and system_prompt = \<open>''You are a scheduling assistant''\<close>
       and message = \<open>''find a slot''\<close>
       and user_id = \<open>''alice''\<close>
       and loads = \<open>loads_table [(''{"tool":"get_availability","args":{}}'',
                 JObj [(''tool'', JStr ''get_availability''), (''args'', JObj [])])]\<close>
       and ga = \<open>\<lambda>args. Inr JNull\<close> and st = \<open>\<lambda>args. Inr JNull\<close>
       and ce = \<open>\<lambda>args. Inr JNull\<close> and dumps = \<open>\<lambda>v. ''{}''\<close>,
     OF refl]
  note dispatch = t [THEN conjunct2, THEN conjunct2, THEN conjunct2, THEN conjunct1, rule_format,
      THEN conjunct1, rule_format]
  have prem: \<open>maybe_parse_tool_call
       (loads_table [(''{"tool":"get_availability","args":{}}'',
                 JObj [(''tool'', JStr ''get_availability''), (''args'', JObj [])])])
       '' {"tool":"get_availability","args":{}} ''
     = Inr (Some [(''tool'', JStr ''get_availability''), (''args'', JObj [])])
     \<and> map_of [(''tool'', JStr ''get_availability''), (''args'', JObj [])] ''tool''
         = Some (JStr ''get_availability'')
     \<and> map_of [(''tool'', JStr ''get_availability''), (''args'', JObj [])] ''args'' = Some (JObj [])\<close>
    using parsed by simp
  have known: \<open>''get_availability'' \<in> {''get_availability'', ''suggest_times'', ''create_event''}\<close>
    by simp
  have d0: \<open>fst (chat (\<lambda>messages. Inr '' {"tool":"get_availability","args":{}} '')
        (loads_table [(''{"tool":"get_availability","args":{}}'',
                  JObj [(''tool'', JStr ''get_availability''), (''args'', JObj [])])])
        (TOOL_REGISTRY (\<lambda>args. Inr JNull) (\<lambda>args. Inr JNull) (\<lambda>args. Inr JNull))
        (\<lambda>v. ''{}'') ''You are a scheduling assistant'' ''alice'' ''find a slot'')
     = [(JStr ''get_availability'', setdefault [] ''organizer_user_id'' (JStr ''alice''))]\<close>
    by (rule dispatch [OF prem known])
  have d: \<open>fst (chat (\<lambda>messages. Inr '' {"tool":"get_availability","args":{}} '')
        (loads_table [(''{"tool":"get_availability","args":{}}'',
                  JObj [(''tool'', JStr ''get_availability''), (''args'', JObj [])])])
        (TOOL_REGISTRY (\<lambda>args. Inr JNull) (\<lambda>args. Inr JNull) (\<lambda>args. Inr JNull))
        (\<lambda>v. ''{}'') ''You are a scheduling assistant'' ''alice'' ''find a slot'')
     = [(JStr ''get_availability'', [(''organizer_user_id'', JStr ''alice'')])]\<close>
    unfolding d0 by (simp add: setdefault_def)
  have n: \<open>maybe_parse_tool_call
       (loads_table [(''{"tool":"get_availability","args":{}}'',
                 JObj [(''tool'', JStr ''get_availability''), (''args'', JObj [])])])
       ''Sure, I can help.'' = Inr None\<close>
    by (rule t [THEN conjunct2, THEN conjunct2, THEN conjunct2, THEN conjunct2, THEN conjunct1])
  from parsed d n show ?thesis by (intro conjI)
qed

text \<open>
  C8.  The claim is what the second terminal path does and the first misses: an empty first
  model reply is returned to the caller as the empty string.
\<close>

theorem chat_empty_first_reply:
  "chat (\<lambda>messages. Inr []) loads registry dumps system_prompt user_id message = ([], Inr [])"
  by (simp add: chat_def maybe_parse_tool_call_def strip_def startswith_def)

text \<open>
  C9.  The claim is what the code's comment announces and \<open>setdefault\<close> misses: an
  \<open>organizer_user_id\<close> the model has put in \<open>args\<close> reaches the tool in place of the
  caller's \<open>user_id\<close>.
\<close>

theorem chat_keeps_model_identity:
  \<open>fst (chat (\<lambda>messages. Inr ''{"tool":"get_availability","args":{"organizer_user_id":"mallory"}}'')
        (loads_table [(''{"tool":"get_availability","args":{"organizer_user_id":"mallory"}}'',
                  JObj [(''tool'', JStr ''get_availability''),
                        (''args'', JObj [(''organizer_user_id'', JStr ''mallory'')])])])
        (TOOL_REGISTRY (\<lambda>args. Inr JNull) (\<lambda>args. Inr JNull) (\<lambda>args. Inr JNull))
        (\<lambda>v. ''{}'') ''You are a scheduling assistant'' ''alice'' ''find a slot'')
     = [(JStr ''get_availability'', [(''organizer_user_id'', JStr ''mallory'')])]\<close>
  by (simp add: chat_def maybe_parse_tool_call_def loads_table_def strip_def isspace_def
        startswith_def registry_get_def TOOL_REGISTRY_def setdefault_def)

end
